theory Spec2Isabelle
  imports Complex_Main
begin

section \<open>Pixel values\<close>

text \<open>
  The rasters and swath arrays of the pipeline are numpy floating-point arrays. A pixel
  value is modelled with the special values of IEEE arithmetic kept apart, because the
  code branches on them (\<^verbatim>\<open>np.isnan\<close>, \<^verbatim>\<open>np.isfinite\<close>, \<^verbatim>\<open>data < 0\<close>): \<open>NaN\<close> (the
  no-data sentinel of every raster the pipeline writes), the two infinities, and the
  finite values. A finite value is the real number it stands for; the distinction
  between \<open>+0.0\<close> and \<open>-0.0\<close> is not modelled.
\<close>

datatype fl = NaN | NInf | Fin real | PInf

type_synonym array2 = "fl list list"

text \<open>\<^verbatim>\<open>np.isnan\<close> and \<^verbatim>\<open>np.isfinite\<close>, elementwise.\<close>

fun isnan :: "fl \<Rightarrow> bool" where
  "isnan NaN = True"
| "isnan NInf = False"
| "isnan (Fin v) = False"
| "isnan PInf = False"

fun isfinite :: "fl \<Rightarrow> bool" where
  "isfinite NaN = False"
| "isfinite NInf = False"
| "isfinite (Fin v) = True"
| "isfinite PInf = False"

text \<open>The comparison \<^verbatim>\<open>a < b\<close> of two floats: false as soon as one side is NaN.\<close>

fun fl_less :: "fl \<Rightarrow> fl \<Rightarrow> bool" where
  "fl_less NaN b = False"
| "fl_less a NaN = False"
| "fl_less NInf NInf = False"
| "fl_less NInf b = True"
| "fl_less (Fin x) NInf = False"
| "fl_less (Fin x) (Fin y) = (x < y)"
| "fl_less (Fin x) PInf = True"
| "fl_less PInf b = False"


fun fneg :: "fl \<Rightarrow> fl" where
  "fneg NaN = NaN"
| "fneg NInf = PInf"
| "fneg (Fin x) = Fin (- x)"
| "fneg PInf = NInf"


text \<open>
  Rounding to a binary floating-point format of \<open>p\<close> significant bits and largest
  exponent \<open>emax\<close> (smallest exponent \<open>1 - emax\<close>, with subnormal numbers), to the
  nearest value of the format and to the even one in a tie: float32 is the format of
  24 bits and largest exponent 127, float64 that of 53 bits and largest exponent
  1023. The value is rounded on the grid of its binade, or of the subnormal numbers
  when it is below the smallest normal number; a result of magnitude \<open>2 ^ (emax + 1)\<close>
  or more overflows to the infinity of its sign.
\<close>

definition ilog2 :: "real \<Rightarrow> int" where
  "ilog2 x = \<lfloor>log 2 \<bar>x\<bar>\<rfloor>"

definition round_half_even :: "real \<Rightarrow> int" where
  "round_half_even x =
     (let f = \<lfloor>x\<rfloor>
      in if x - of_int f < 1 / 2 then f
         else if 1 / 2 < x - of_int f then f + 1
         else if even f then f else f + 1)"

definition fl_round :: "nat \<Rightarrow> int \<Rightarrow> real \<Rightarrow> fl" where
  "fl_round p emax x =
     (if x = 0 then Fin 0
      else
        let e = max (1 - emax) (ilog2 x);
            ulp = 2 powi (e - int p + 1);
            y = of_int (round_half_even (x / ulp)) * ulp
        in if 2 powi (emax + 1) \<le> \<bar>y\<bar> then (if 0 < x then PInf else NInf) else Fin y)"

definition f32_round :: "real \<Rightarrow> fl" where
  "f32_round = fl_round 24 127"

definition f64_round :: "real \<Rightarrow> fl" where
  "f64_round = fl_round 53 1023"

text \<open>A value that a float32 array can hold: a special value, or a fixed point of the rounding.\<close>

definition f32_value :: "fl \<Rightarrow> bool" where
  "f32_value v = (case v of Fin x \<Rightarrow> f32_round x = Fin x | _ \<Rightarrow> True)"

text \<open>
  The arithmetic of a format: the rules of the special values are those above, and
  the sum, difference or quotient of two finite operands is rounded to the format.
\<close>

fun fadd_r :: "(real \<Rightarrow> fl) \<Rightarrow> fl \<Rightarrow> fl \<Rightarrow> fl" where
  "fadd_r rnd NaN b = NaN"
| "fadd_r rnd a NaN = NaN"
| "fadd_r rnd PInf NInf = NaN"
| "fadd_r rnd NInf PInf = NaN"
| "fadd_r rnd PInf b = PInf"
| "fadd_r rnd a PInf = PInf"
| "fadd_r rnd NInf b = NInf"
| "fadd_r rnd a NInf = NInf"
| "fadd_r rnd (Fin x) (Fin y) = rnd (x + y)"

definition fsub_r :: "(real \<Rightarrow> fl) \<Rightarrow> fl \<Rightarrow> fl \<Rightarrow> fl" where
  "fsub_r rnd a b = fadd_r rnd a (fneg b)"

fun fdiv_r :: "(real \<Rightarrow> fl) \<Rightarrow> fl \<Rightarrow> fl \<Rightarrow> fl" where
  "fdiv_r rnd NaN b = NaN"
| "fdiv_r rnd a NaN = NaN"
| "fdiv_r rnd (Fin x) (Fin y) =
     (if y = 0 then (if x = 0 then NaN else if 0 < x then PInf else NInf)
      else rnd (x / y))"
| "fdiv_r rnd (Fin x) b = Fin 0"
| "fdiv_r rnd PInf (Fin y) = (if y < 0 then NInf else PInf)"
| "fdiv_r rnd NInf (Fin y) = (if y < 0 then PInf else NInf)"
| "fdiv_r rnd a b = NaN"

text \<open>
  \<^verbatim>\<open>np.fmin\<close> and \<^verbatim>\<open>np.fmax\<close>: the smaller (larger) of two floats, a NaN operand being
  ignored whenever the other operand is a number.
\<close>

definition fmin :: "fl \<Rightarrow> fl \<Rightarrow> fl" where
  "fmin a b = (if isnan a then b else if isnan b then a else if fl_less b a then b else a)"

definition fmax :: "fl \<Rightarrow> fl \<Rightarrow> fl" where
  "fmax a b = (if isnan a then b else if isnan b then a else if fl_less a b then b else a)"

section \<open>Errors, printed messages\<close>

text \<open>
  The Python exceptions that the modelled code can raise, as values; \<open>LibraryError\<close>
  stands for an exception raised inside pyresample, GDAL, rasterio or rioxarray. The
  messages the scripts print are events.
\<close>

datatype error = ValueError | IndexError | LibraryError

datatype event =
    NoValidPixels
  | Saved string
  | Processing string
  | CouldNotExtract string
  | Skipping string

section \<open>Raster files\<close>

text \<open>
  The metadata dictionary \<^verbatim>\<open>src.meta\<close> of a rasterio dataset (its keys are driver, dtype,
  nodata, width, height, count, crs and transform) and a single-band GeoTIFF: the
  metadata and the array of band 1. The affine transform is its six coefficients.
\<close>

type_synonym affine = "fl \<times> fl \<times> fl \<times> fl \<times> fl \<times> fl"

record profile =
  driver :: string
  dtype :: string
  nodata :: "fl option"
  width :: nat
  height :: nat
  count :: nat
  crs :: string
  transform :: affine

record geotiff =
  meta :: profile
  band1 :: array2

section \<open>Step 4: reclassify negative values to zero\<close>

text \<open>
  \<^verbatim>\<open>
  def reclassify_negative_to_zero(in_tif, out_tif):
      with rasterio.open(in_tif) as src:
          data = src.read(1)
          meta = src.meta.copy()
      data = np.where((data < 0) & ~np.isnan(data), 0, data)
      with rasterio.open(out_tif, "w", **meta) as dst:
          dst.write(data, 1)
  \<close>
  The function maps the contents of \<^verbatim>\<open>in_tif\<close> to the contents written to \<^verbatim>\<open>out_tif\<close>.
\<close>

definition reclass_px :: "fl \<Rightarrow> fl" where
  "reclass_px v = (if fl_less v (Fin 0) \<and> \<not> isnan v then Fin 0 else v)"

definition reclassify_negative_to_zero :: "geotiff \<Rightarrow> geotiff" where
  "reclassify_negative_to_zero src =
     (let data = band1 src;
          m = meta src;
          data' = map (map reclass_px) data
      in \<lparr>meta = m, band1 = data'\<rparr>)"

text \<open>The mask of no-data pixels of an array, and their number.\<close>

definition nodata_mask :: "array2 \<Rightarrow> bool list list" where
  "nodata_mask a = map (map isnan) a"

definition nodata_count :: "array2 \<Rightarrow> nat" where
  "nodata_count a = length (filter isnan (concat a))"

section \<open>Step 3: swath to GeoTIFF\<close>

text \<open>
  \<^verbatim>\<open>np.nanmin\<close> and \<^verbatim>\<open>np.nanmax\<close> over a whole array reduce it with \<^verbatim>\<open>np.fmin\<close>
  (\<^verbatim>\<open>np.fmax\<close>); they raise ValueError on an array with no element and return NaN (with a
  warning) when every element is NaN.
\<close>

definition nanmin :: "array2 \<Rightarrow> error + fl" where
  "nanmin a = (case concat a of [] \<Rightarrow> Inl ValueError | x # xs \<Rightarrow> Inr (foldl fmin x xs))"

definition nanmax :: "array2 \<Rightarrow> error + fl" where
  "nanmax a = (case concat a of [] \<Rightarrow> Inl ValueError | x # xs \<Rightarrow> Inr (foldl fmax x xs))"

text \<open>
  \<^verbatim>\<open>len(np.arange(start, stop, step))\<close> for float64 bounds (the decoded latitudes and
  longitudes are float64) and a Python float step: numpy computes the length as
  \<open>ceil((stop - start) / step)\<close>, the difference and the quotient being float64
  operations, raises ValueError when the quotient is NaN or infinite, and returns the
  empty array when it is not positive. (A finite length beyond the address space also
  raises; lengths are unbounded here.)
\<close>

definition arange_len :: "fl \<Rightarrow> fl \<Rightarrow> real \<Rightarrow> error + nat" where
  "arange_len start stop step =
     (case fdiv_r f64_round (fsub_r f64_round stop start) (Fin step) of
        NaN \<Rightarrow> Inl ValueError
      | NInf \<Rightarrow> Inl ValueError
      | PInf \<Rightarrow> Inl ValueError
      | Fin q \<Rightarrow> Inr (nat \<lceil>q\<rceil>))"

text \<open>
  The arguments of pyresample's \<^verbatim>\<open>AreaDefinition\<close> that the code computes: the number of
  columns and rows and the extent \<open>(lon_min, lat_min, lon_max, lat_max)\<close>.
\<close>

record area_def =
  ad_width :: nat
  ad_height :: nat
  area_extent :: "fl \<times> fl \<times> fl \<times> fl"

text \<open>
  The grid of a swath, lines 145 to 159 of \<^verbatim>\<open>create_geotiff_from_swath\<close> (127 to 139 in
  \<^verbatim>\<open>s3_process.py\<close>):
  \<^verbatim>\<open>
  lat_min, lat_max = np.nanmin(lat), np.nanmax(lat)
  lon_min, lon_max = np.nanmin(lon), np.nanmax(lon)
  ref_lats = np.arange(lat_min, lat_max, res_deg)
  ref_lons = np.arange(lon_min, lon_max, res_deg)
  area_def = geom.AreaDefinition("grid", "OLCI Grid", "latlon",
      {"proj": "longlat", "datum": "WGS84"},
      len(ref_lons), len(ref_lats), (lon_min, lat_min, lon_max, lat_max))
  \<close>
\<close>

definition grid_definition :: "array2 \<Rightarrow> array2 \<Rightarrow> real \<Rightarrow> error + area_def" where
  "grid_definition lat lon res_deg =
     (case nanmin lat of Inl e \<Rightarrow> Inl e | Inr lat_min \<Rightarrow>
     (case nanmax lat of Inl e \<Rightarrow> Inl e | Inr lat_max \<Rightarrow>
     (case nanmin lon of Inl e \<Rightarrow> Inl e | Inr lon_min \<Rightarrow>
     (case nanmax lon of Inl e \<Rightarrow> Inl e | Inr lon_max \<Rightarrow>
     (case arange_len lat_min lat_max res_deg of Inl e \<Rightarrow> Inl e | Inr n_lats \<Rightarrow>
     (case arange_len lon_min lon_max res_deg of Inl e \<Rightarrow> Inl e | Inr n_lons \<Rightarrow>
        Inr \<lparr>ad_width = n_lons, ad_height = n_lats,
             area_extent = (lon_min, lat_min, lon_max, lat_max)\<rparr>))))))"

text \<open>
  The mask \<^verbatim>\<open>np.isfinite(tsm) & np.isfinite(lat) & np.isfinite(lon)\<close> of three arrays of
  one shape, and \<^verbatim>\<open>np.sum(mask)\<close>.
\<close>

definition valid_mask :: "array2 \<Rightarrow> array2 \<Rightarrow> array2 \<Rightarrow> bool list list" where
  "valid_mask tsm lat lon =
     map (\<lambda>(ts, las, los).
            map (\<lambda>(t, la, lo). isfinite t \<and> isfinite la \<and> isfinite lo) (zip ts (zip las los)))
         (zip tsm (zip lat lon))"

definition mask_sum :: "bool list list \<Rightarrow> nat" where
  "mask_sum m = length (filter (\<lambda>b. b) (concat m))"

definition shape2 :: "array2 \<Rightarrow> nat \<times> nat" where
  "shape2 a = (length a, case a of [] \<Rightarrow> 0 | r # _ \<Rightarrow> length r)"

text \<open>
  The two pyresample calls (\<^verbatim>\<open>get_neighbour_info\<close> with a radius of influence of 5000 m
  and one neighbour, then \<^verbatim>\<open>get_sample_from_neighbour_info\<close> with \<^verbatim>\<open>'nn'\<close> and fill value
  NaN) are library code: together they are a parameter, which maps the swath's
  longitudes and latitudes, the area definition, the radius and the measurement array
  to the resampled grid or to an exception.
\<close>

type_synonym resampler = "array2 \<Rightarrow> array2 \<Rightarrow> area_def \<Rightarrow> real \<Rightarrow> array2 \<Rightarrow> error + array2"

text \<open>
  \<^verbatim>\<open>create_geotiff_from_swath(tsm_nc, geo_nc, out_tif, res_deg)\<close>. The three arrays are
  the values read from the two netCDF files (\<open>tsm\<close> after \<^verbatim>\<open>squeeze()\<close>); they are taken
  to be two-dimensional, and arrays of different shapes fail to combine in the mask
  (numpy's broadcasting of unequal shapes is not modelled). The result is the
  exception raised, or the messages printed and the GeoTIFF written, if any: the early
  \<^verbatim>\<open>return\<close> writes none. The geotransform is kept in GDAL's order
  \<open>(x0, dx, 0, y0, 0, -dy)\<close>, the coefficients being float64 values; the data type
  written is that of the grid, float32 for the decoded \<^verbatim>\<open>TSM_NN\<close>.
\<close>

definition create_geotiff_from_swath ::
  "resampler \<Rightarrow> string \<Rightarrow> array2 \<Rightarrow> array2 \<Rightarrow> array2 \<Rightarrow> real
     \<Rightarrow> error + (event list \<times> geotiff option)" where
  "create_geotiff_from_swath resample out_name tsm lat lon res_deg =
     (if map length tsm \<noteq> map length lat \<or> map length lat \<noteq> map length lon
      then Inl ValueError
      else if mask_sum (valid_mask tsm lat lon) = 0
      then Inr ([NoValidPixels], None)
      else
       (case grid_definition lat lon res_deg of Inl e \<Rightarrow> Inl e | Inr ad \<Rightarrow>
       (case area_extent ad of (lon_min, lat_min, lon_max, lat_max) \<Rightarrow>
       (case resample lon lat ad 5000 tsm of Inl e \<Rightarrow> Inl e | Inr grid \<Rightarrow>
          Inr ([Saved out_name],
               Some \<lparr>meta = \<lparr>driver = ''GTiff'', dtype = ''float32'', nodata = Some NaN,
                              width = snd (shape2 grid), height = fst (shape2 grid),
                              count = 1, crs = ''EPSG:4326'',
                              transform =
                                (lon_min,
                                 fdiv_r f64_round (fsub_r f64_round lon_max lon_min)
                                   (Fin (real (snd (shape2 grid)))),
                                 Fin 0,
                                 lat_max,
                                 Fin 0,
                                 fneg (fdiv_r f64_round (fsub_r f64_round lat_max lat_min)
                                         (Fin (real (fst (shape2 grid))))))\<rparr>,
                      band1 = grid\<rparr>)))))"

text \<open>
  A product directory \<^verbatim>\<open><ID>.SEN3\<close>: its name and, when the file exists, the array
  \<^verbatim>\<open>TSM_NN\<close> of \<^verbatim>\<open>tsm_nn.nc\<close> and the arrays \<^verbatim>\<open>latitude\<close> and \<^verbatim>\<open>longitude\<close> of
  \<^verbatim>\<open>geo_coordinates.nc\<close>.
\<close>

record sen3 =
  sen3_name :: string
  tsm_nn :: "array2 option"
  geo_coordinates :: "(array2 \<times> array2) option"

text \<open>
  A run of one of the loops of \<^verbatim>\<open>main\<close>: what was printed, the files written (name and
  contents), and the exception that ended the loop, if one did. \<^verbatim>\<open>main\<close> has no
  \<^verbatim>\<open>try\<close>: an exception raised in a loop body ends the run.
\<close>

type_synonym run = "event list \<times> (string \<times> geotiff) list \<times> error option"

text \<open>
  Step 3 of \<^verbatim>\<open>main\<close>:
  \<^verbatim>\<open>
  for sen3 in base_dir.glob("*.SEN3"):
      tsm = sen3 / "tsm_nn.nc"
      geo = sen3 / "geo_coordinates.nc"
      if tsm.exists() and geo.exists():
          out = geotiff_dir / f"TSM_{sen3.name}.tif"
          create_geotiff_from_swath(tsm, geo, out, OUTPUT_RES_DEG)
  \<close>
\<close>

fun create_geotiffs :: "resampler \<Rightarrow> real \<Rightarrow> sen3 list \<Rightarrow> run" where
  "create_geotiffs resample res_deg [] = ([], [], None)"
| "create_geotiffs resample res_deg (p # ps) =
     (case (tsm_nn p, geo_coordinates p) of
        (Some tsm, Some (lat, lon)) \<Rightarrow>
          (let out = ''TSM_'' @ sen3_name p @ ''.tif'' in
           case create_geotiff_from_swath resample out tsm lat lon res_deg of
             Inl e \<Rightarrow> ([], [], Some e)
           | Inr (printed, tif) \<Rightarrow>
               (case create_geotiffs resample res_deg ps of
                  (printed', written, raised) \<Rightarrow>
                    (printed @ printed',
                     (case tif of None \<Rightarrow> [] | Some g \<Rightarrow> [(out, g)]) @ written,
                     raised)))
      | _ \<Rightarrow> create_geotiffs resample res_deg ps)"





section \<open>Step 6: daily composites\<close>



text \<open>
  \<^verbatim>\<open>np.stack\<close> raises ValueError on an empty list and on arrays of different shapes.
  The mean along axis 0 of the stacked arrays is taken pixel by pixel.
\<close>

definition np_stack :: "array2 list \<Rightarrow> error + array2 list" where
  "np_stack arrays =
     (case arrays of
        [] \<Rightarrow> Inl ValueError
      | a # as \<Rightarrow>
          if list_all (\<lambda>b. map length b = map length a) as then Inr (a # as)
          else Inl ValueError)"


text \<open>
  rasterio's \<^verbatim>\<open>merge\<close> and \<^verbatim>\<open>reproject\<close> are library code, taken as parameters. A merger
  maps the open datasets to band 0 of the merged array (only its shape is used) and
  the transform of the merged grid, or to an exception. A reprojector maps the source
  array, the shape of the destination array, the source transform and CRS and the
  destination transform and CRS to the filled destination array, or to an exception;
  the destination no-data value is always NaN.
\<close>

type_synonym merger = "geotiff list \<Rightarrow> error + (array2 \<times> affine)"

type_synonym reprojector =
  "array2 \<Rightarrow> nat \<times> nat \<Rightarrow> affine \<Rightarrow> string \<Rightarrow> affine \<Rightarrow> string \<Rightarrow> error + array2"

text \<open>
  \<^verbatim>\<open>
  def merge_and_average(files):
      srcs = [rasterio.open(f) for f in files]
      merged, transform = merge(srcs, method="first")
      stack = []
      for src in srcs:
          arr = src.read(1)
          reproj = np.empty_like(merged[0], dtype=np.float32)
          reproject(arr, reproj, src_transform=src.transform, src_crs=src.crs,
                    dst_transform=transform, dst_crs=src.crs, dst_nodata=np.nan)
          stack.append(reproj)
      for s in srcs:
          s.close()
      return np.nanmean(np.stack(stack), axis=0), transform, srcs[0].meta.copy()
  \<close>
  The files are given by their contents. The clipped rasters of the pipeline are
  float32, so that filling the float32 array \<^verbatim>\<open>reproj\<close> converts no value.
\<close>

fun reproject_each ::
  "reprojector \<Rightarrow> nat \<times> nat \<Rightarrow> affine \<Rightarrow> geotiff list \<Rightarrow> error + array2 list" where
  "reproject_each reproject shp dst_t [] = Inr []"
| "reproject_each reproject shp dst_t (src # srcs) =
     (case reproject (band1 src) shp (transform (meta src)) (crs (meta src))
             dst_t (crs (meta src)) of
        Inl e \<Rightarrow> Inl e
      | Inr reproj \<Rightarrow>
          (case reproject_each reproject shp dst_t srcs of
             Inl e \<Rightarrow> Inl e
           | Inr stack \<Rightarrow> Inr (reproj # stack)))"



text \<open>
  The same computation in the arithmetic of the arrays. The arrays \<^verbatim>\<open>reproj\<close> are
  float32, and so are the sum and the mean that \<^verbatim>\<open>np.nanmean\<close> returns for them: the
  values are added in the order of the stack, each sum rounded to float32, and the
  quotient by the count is rounded to float32; a sum beyond the float32 range is an
  infinity. (Where numpy takes the quotient in float64 and stores it as float32, the
  value stored is the same, the count being far below \<open>2 ^ 24\<close>.) This is numpy's
  order of summation along axis 0 for arrays of more than one pixel, and for fewer
  than 8 arrays; 8 or more arrays of a single pixel are summed pairwise, which is not
  modelled. A reprojector returns the float32 array it filled.
\<close>

definition fsum_f32 :: "fl list \<Rightarrow> fl" where
  "fsum_f32 vs = foldl (fadd_r f32_round) (Fin 0) vs"

definition nanmean1_f32 :: "fl list \<Rightarrow> fl" where
  "nanmean1_f32 vs =
     (let arr = map (\<lambda>v. if isnan v then Fin 0 else v) vs;
          cnt = length (filter (\<lambda>v. \<not> isnan v) vs);
          tot = fsum_f32 arr
      in fdiv_r f32_round tot (Fin (real cnt)))"

definition nanmean_axis0_f32 :: "array2 list \<Rightarrow> array2" where
  "nanmean_axis0_f32 stack =
     (case stack of
        [] \<Rightarrow> []
      | a # _ \<Rightarrow>
          map (\<lambda>i. map (\<lambda>j. nanmean1_f32 (map (\<lambda>b. b ! i ! j) stack)) [0..<length (a ! i)])
              [0..<length a])"

definition merge_and_average_f32 ::
  "merger \<Rightarrow> reprojector \<Rightarrow> geotiff list \<Rightarrow> error + (array2 \<times> affine \<times> profile)" where
  "merge_and_average_f32 merge reproject srcs =
     (case merge srcs of Inl e \<Rightarrow> Inl e | Inr (merged0, dst_t) \<Rightarrow>
     (case reproject_each reproject (shape2 merged0) dst_t srcs of
        Inl e \<Rightarrow> Inl e | Inr stack \<Rightarrow>
     (case np_stack stack of Inl e \<Rightarrow> Inl e | Inr st \<Rightarrow>
     (case srcs of [] \<Rightarrow> Inl IndexError
      | s0 # _ \<Rightarrow> Inr (nanmean_axis0_f32 st, dst_t, meta s0)))))"

text \<open>
  Specification side: the mean of the values of a pixel that are not no-data, taken
  in float32 arithmetic, no-data when there is none; the exact arithmetic mean of
  real numbers; and an array of \<open>h\<close> rows of \<open>w\<close> pixels.
\<close>

definition spec_mean_valid_f32 :: "fl list \<Rightarrow> fl" where
  "spec_mean_valid_f32 vals =
     (let valid = filter (\<lambda>v. \<not> isnan v) vals
      in if valid = [] then NaN
         else fdiv_r f32_round (fsum_f32 valid) (Fin (real (length valid))))"

definition spec_exact_mean :: "real list \<Rightarrow> real" where
  "spec_exact_mean xs = sum_list xs / real (length xs)"

definition has_shape :: "array2 \<Rightarrow> nat \<Rightarrow> nat \<Rightarrow> bool" where
  "has_shape a h w = (length a = h \<and> list_all (\<lambda>r. length r = w) a)"

text \<open>
  The library behaviour assumed for rasters that already share a grid: merging keeps
  the grid, and reprojecting onto the grid a raster is on returns its array.
\<close>

definition merge_first :: merger where
  "merge_first srcs =
     (case srcs of [] \<Rightarrow> Inl LibraryError
      | s # _ \<Rightarrow> Inr (band1 s, transform (meta s)))"

definition reproject_same :: reprojector where
  "reproject_same arr shp src_t src_crs dst_t dst_crs =
     (if src_t = dst_t \<and> shape2 arr = shp then Inr arr else Inl LibraryError)"

section \<open>Step 5: clip to the region of interest\<close>









section \<open>Grouping files by date\<close>

text \<open>
  Strings. \<^verbatim>\<open>os.path.basename\<close> is what follows the last slash. The pattern
  \<^verbatim>\<open>re.compile(r"(\d{8})")\<close> matches eight digits in a row; \<^verbatim>\<open>pattern.search\<close> finds the
  leftmost match, whose text is \<^verbatim>\<open>m.group(1)\<close>, or returns None. Characters are bytes
  here, so the digits are the ASCII ones.
\<close>

definition basename :: "string \<Rightarrow> string" where
  "basename p = rev (takeWhile (\<lambda>c. c \<noteq> CHR ''/'') (rev p))"

definition is_digit :: "char \<Rightarrow> bool" where
  "is_digit c = (c \<in> set ''0123456789'')"

fun search_d8 :: "string \<Rightarrow> string option" where
  "search_d8 [] = None"
| "search_d8 (c # cs) =
     (if 8 \<le> length (c # cs) \<and> list_all is_digit (take 8 (c # cs))
      then Some (take 8 (c # cs))
      else search_d8 cs)"

text \<open>
  \<^verbatim>\<open>grouped.setdefault(key, []).append(f)\<close> on a dictionary, which keeps its keys in the
  order of their first insertion.
\<close>

fun setdefault_append ::
  "string \<Rightarrow> string \<Rightarrow> (string \<times> string list) list \<Rightarrow> (string \<times> string list) list" where
  "setdefault_append k f [] = [(k, [f])]"
| "setdefault_append k f ((k', fs) # grouped) =
     (if k = k' then (k', fs @ [f]) # grouped
      else (k', fs) # setdefault_append k f grouped)"

text \<open>
  The grouping loop of step 6 of \<^verbatim>\<open>main\<close> in \<^verbatim>\<open>s3_process_to_geotiff.py\<close>. Its result
  is what it prints and the dictionary; the loop body has no \<^verbatim>\<open>print\<close>.
  \<^verbatim>\<open>
  grouped = {}
  for f in files:
      m = pattern.search(os.path.basename(f))
      if m:
          grouped.setdefault(m.group(1), []).append(f)
  \<close>
\<close>

definition group_by_date :: "string list \<Rightarrow> event list \<times> (string \<times> string list) list" where
  "group_by_date files =
     foldl (\<lambda>(printed, grouped) f.
              case search_d8 (basename f) of
                Some date \<Rightarrow> (printed, setdefault_append date f grouped)
              | None \<Rightarrow> (printed, grouped))
           ([], []) files"

text \<open>
  \<^verbatim>\<open>Path.stem\<close>: the final component without its last suffix; a name has a suffix when
  its last dot is neither its first nor its last character. \<^verbatim>\<open>str.split("_")\<close> cuts at
  every underscore and keeps empty parts.
\<close>

definition path_stem :: "string \<Rightarrow> string" where
  "path_stem p =
     (let name = basename p;
          k = length (takeWhile (\<lambda>c. c \<noteq> CHR ''.'') (rev name))
      in if k < length name \<and> 0 < length name - 1 - k \<and> 0 < k
         then take (length name - 1 - k) name
         else name)"

fun split_on :: "char \<Rightarrow> string \<Rightarrow> string list" where
  "split_on sep [] = [[]]"
| "split_on sep (c # cs) =
     (if c = sep then [] # split_on sep cs
      else (case split_on sep cs of
              [] \<Rightarrow> [[c]]
            | part # parts \<Rightarrow> (c # part) # parts))"

text \<open>
  \<^verbatim>\<open>datetime.strptime(part, "%Y%m%dT%H%M%S")\<close> on a string of 15 characters, the only
  ones the code passes to it; None stands for ValueError. The format's pattern is
  four digits, a month 01 to 12, a day 01 to 31 (or a space and a digit 1 to 9), the
  letter T in either case, an hour 00 to 23, a minute 00 to 59 and a second 00 to 61,
  all of which must be used up; the date must then exist and the second be below 60.
\<close>

record datetime =
  year :: nat
  month :: nat
  day :: nat
  hour :: nat
  minute :: nat
  second :: nat

definition digit_val :: "char \<Rightarrow> nat" where
  "digit_val c = of_char c - 48"

definition int_of_digits :: "string \<Rightarrow> nat" where
  "int_of_digits ds = foldl (\<lambda>n c. 10 * n + digit_val c) 0 ds"

definition is_leap :: "nat \<Rightarrow> bool" where
  "is_leap y = (y mod 4 = 0 \<and> (y mod 100 \<noteq> 0 \<or> y mod 400 = 0))"

definition days_in_month :: "nat \<Rightarrow> nat \<Rightarrow> nat" where
  "days_in_month y m =
     (if m = 2 then (if is_leap y then 29 else 28)
      else if m = 4 \<or> m = 6 \<or> m = 9 \<or> m = 11 then 30 else 31)"

definition strptime15 :: "string \<Rightarrow> datetime option" where
  "strptime15 s =
     (if length s \<noteq> 15 then None
      else
        let Y = take 4 s; m = take 2 (drop 4 s); d = take 2 (drop 6 s); T = s ! 8;
            H = take 2 (drop 9 s); M = take 2 (drop 11 s); S = take 2 (drop 13 s);
            d' = (if hd d = CHR '' '' then tl d else d)
        in if list_all is_digit (Y @ m @ d' @ H @ M @ S)
              \<and> (T = CHR ''T'' \<or> T = CHR ''t'')
              \<and> 1 \<le> int_of_digits m \<and> int_of_digits m \<le> 12
              \<and> 1 \<le> int_of_digits d' \<and> int_of_digits d' \<le> 31
              \<and> int_of_digits H \<le> 23 \<and> int_of_digits M \<le> 59 \<and> int_of_digits S \<le> 61
           then
             if 1 \<le> int_of_digits Y
                \<and> int_of_digits d' \<le> days_in_month (int_of_digits Y) (int_of_digits m)
                \<and> int_of_digits S \<le> 59
             then Some \<lparr>year = int_of_digits Y, month = int_of_digits m,
                        day = int_of_digits d', hour = int_of_digits H,
                        minute = int_of_digits M, second = int_of_digits S\<rparr>
             else None
           else None)"

text \<open>
  \<^verbatim>\<open>
  def extract_datetime_from_filename(filepath):
      stem = filepath.stem
      try:
          for part in stem.split("_"):
              if len(part) == 15 and part.startswith("20"):
                  return datetime.strptime(part, "%Y%m%dT%H%M%S")
      except ValueError:
          pass
      print(f"Could not extract timestamp from {filepath.name}")
      return None
  \<close>
  The \<^verbatim>\<open>try\<close> is around the loop: the first part that passes the test and does not parse
  ends the search. \<open>scan_parts\<close> is the loop, None when it ends without a
  \<^verbatim>\<open>return\<close>.
\<close>

fun scan_parts :: "string list \<Rightarrow> datetime option" where
  "scan_parts [] = None"
| "scan_parts (part # parts) =
     (if length part = 15 \<and> take 2 part = ''20'' then strptime15 part
      else scan_parts parts)"

definition extract_datetime_from_filename :: "string \<Rightarrow> event list \<times> datetime option" where
  "extract_datetime_from_filename filepath =
     (let stem = path_stem filepath in
      case scan_parts (split_on CHR ''_'' stem) of
        Some dt \<Rightarrow> ([], Some dt)
      | None \<Rightarrow> ([CouldNotExtract (basename filepath)], None))"

text \<open>
  Step 4D of \<^verbatim>\<open>s3_process.py\<close>, over the files found (path, and the array that
  \<^verbatim>\<open>rioxarray.open_rasterio(f).squeeze()\<close> yields or the exception it raises):
  \<^verbatim>\<open>
  dataarrays = []
  for f in files:
      print(f"Processing: {f.name}")
      timestamp = extract_datetime_from_filename(f)
      if timestamp is None:
          continue
      try:
          da = rioxarray.open_rasterio(f).squeeze()
          da = da.expand_dims(time=[timestamp])
          dataarrays.append(da)
      except Exception as e:
          print(f"Skipping {f.name} due to error: {e}")
  \<close>
\<close>

fun load_dataarrays ::
  "(string \<times> (error + array2)) list \<Rightarrow> event list \<times> (string \<times> datetime \<times> array2) list" where
  "load_dataarrays [] = ([], [])"
| "load_dataarrays ((f, opened) # files) =
     (case load_dataarrays files of (printed, dataarrays) \<Rightarrow>
       (case extract_datetime_from_filename f of
          (msgs, None) \<Rightarrow> (Processing (basename f) # msgs @ printed, dataarrays)
        | (msgs, Some timestamp) \<Rightarrow>
            (case opened of
               Inl e \<Rightarrow> (Processing (basename f) # msgs @ [Skipping (basename f)] @ printed,
                         dataarrays)
             | Inr da \<Rightarrow> (Processing (basename f) # msgs @ printed,
                          (f, timestamp, da) # dataarrays))))"

text \<open>A float32, single-band, WGS84 profile of the given size, for the worked examples.\<close>

definition float32_profile :: "nat \<Rightarrow> nat \<Rightarrow> profile" where
  "float32_profile w h =
     \<lparr>driver = ''GTiff'', dtype = ''float32'', nodata = Some NaN, width = w, height = h,
      count = 1, crs = ''EPSG:4326'', transform = (Fin 0, Fin 1, Fin 0, Fin 0, Fin 0, Fin (- 1))\<rparr>"

section \<open>Properties of rounding\<close>

lemma powr2_int: "(2::real) powr real_of_int k = 2 powi k"
  by (simp add: powr_real_of_int')

lemma powr2_int_Suc: "(2::real) powr (real_of_int k + 1) = 2 powi (k + 1)"
  using powr2_int [of "k + 1"] by simp

lemma ilog2_bounds:
  assumes "x \<noteq> 0"
  shows "2 powi (ilog2 x) \<le> \<bar>x\<bar>" and "\<bar>x\<bar> < 2 powi (ilog2 x + 1)"
proof -
  have pos: "0 < \<bar>x\<bar>" using assms by simp
  have "\<lfloor>log 2 \<bar>x\<bar>\<rfloor> = ilog2 x" by (simp add: ilog2_def)
  then have "2 powr real_of_int (ilog2 x) \<le> \<bar>x\<bar> \<and> \<bar>x\<bar> < 2 powr real_of_int (ilog2 x + 1)"
    using floor_log_eq_powr_iff [OF pos, of 2 "ilog2 x"] by simp
  then show "2 powi (ilog2 x) \<le> \<bar>x\<bar>" and "\<bar>x\<bar> < 2 powi (ilog2 x + 1)"
    by (simp_all add: powr2_int powr2_int_Suc)
qed

lemma ilog2_unique:
  assumes "2 powi k \<le> \<bar>x\<bar>" and "\<bar>x\<bar> < 2 powi (k + 1)"
  shows "ilog2 x = k"
proof -
  have "(0::real) < 2 powi k" by simp
  with assms(1) have pos: "0 < \<bar>x\<bar>" by linarith
  show ?thesis
    unfolding ilog2_def
    using floor_log_eq_powr_iff [OF pos, of 2 k] assms
    by (simp add: powr2_int powr2_int_Suc)
qed

lemma pow2_le_imp_le:
  assumes "(2::real) powi a \<le> 2 powi b"
  shows "a \<le> b"
proof (rule ccontr)
  assume "\<not> a \<le> b"
  then have "b < a" by simp
  then have "(2::real) powi b < 2 powi a"
    by (intro power_int_strict_increasing) simp_all
  with assms show False by simp
qed

lemma pow2_less_imp_less:
  assumes "(2::real) powi a < 2 powi b"
  shows "a < b"
proof (rule ccontr)
  assume "\<not> a < b"
  then have "b \<le> a" by simp
  then have "(2::real) powi b \<le> 2 powi a"
    by (intro power_int_increasing) simp_all
  with assms show False by simp
qed

lemma round_half_even_of_int: "round_half_even (of_int n) = n"
  by (simp add: round_half_even_def)

lemma round_half_even_ge:
  assumes "of_int i \<le> x"
  shows "i \<le> round_half_even x"
proof -
  from assms have "i \<le> \<lfloor>x\<rfloor>" by (simp add: le_floor_iff)
  then show ?thesis by (auto simp: round_half_even_def Let_def)
qed

lemma round_half_even_le:
  assumes "x \<le> of_int i"
  shows "round_half_even x \<le> i"
proof (cases "x = of_int i")
  case True
  then show ?thesis by (simp add: round_half_even_of_int)
next
  case False
  with assms have "x < of_int i" by simp
  then have "\<lfloor>x\<rfloor> < i" by (simp add: floor_less_iff)
  then show ?thesis by (auto simp: round_half_even_def Let_def)
qed

lemma round_exact:
  assumes "ulp \<noteq> 0" and "x = of_int j * ulp"
  shows "of_int (round_half_even (x / ulp)) * ulp = x"
  using assms by (simp add: round_half_even_of_int)

lemma real_abs_le_pow2: "\<bar>m::int\<bar> \<le> 2 ^ p \<Longrightarrow> (of_int \<bar>m\<bar> :: real) \<le> 2 ^ p"
  using of_int_le_iff [of "\<bar>m\<bar>" "2 ^ p", where ?'a = real] by simp

lemma int_abs_eq_pow2: "(of_int \<bar>m\<bar> :: real) = 2 ^ p \<Longrightarrow> \<bar>m::int\<bar> = 2 ^ p"
  using of_int_eq_iff [of "\<bar>m\<bar>" "2 ^ p", where ?'a = real] by simp

lemma even_abs_pow2:
  assumes "1 \<le> p" and "\<bar>m::int\<bar> = 2 ^ p"
  shows "even m"
proof -
  from assms(1) have "even ((2::int) ^ p)" by simp
  with assms(2) have "even \<bar>m\<bar>" by simp
  then show ?thesis by simp
qed

lemma pow2_shift: "(2::real) ^ p * 2 powi k = 2 powi (int p + k)"
  by (simp add: power_int_add)

lemma pow2_split: "d \<le> k \<Longrightarrow> (2::real) powi k = of_int (2 ^ nat (k - d)) * 2 powi d"
proof -
  assume "d \<le> k"
  then have "(2::real) powi (k - d) = 2 ^ nat (k - d)"
    by (simp add: power_int_def)
  moreover have "(2::real) powi k = 2 powi (k - d) * 2 powi d"
    using power_int_add [of "2::real" "k - d" d] by simp
  ultimately show ?thesis by simp
qed

lemma fl_round_representable:
  assumes p: "1 \<le> p" and m: "\<bar>m\<bar> \<le> 2 ^ p" and k: "2 - emax - int p \<le> k"
    and nov: "\<bar>of_int m * 2 powi k\<bar> < (2::real) powi (emax + 1)"
  shows "fl_round p emax (of_int m * 2 powi k) = Fin (of_int m * 2 powi k)"
proof (cases "m = 0")
  case True
  then show ?thesis by (simp add: fl_round_def)
next
  case False
  define x :: real where "x = of_int m * 2 powi k"
  define L where "L = ilog2 x"
  define e where "e = max (1 - emax) L"
  define d where "d = e - int p + 1"
  from False have x0: "x \<noteq> 0" by (simp add: x_def)
  have absx: "\<bar>x\<bar> = of_int \<bar>m\<bar> * 2 powi k"
    by (simp add: x_def abs_mult)
  note mr = real_abs_le_pow2 [OF m]
  have "\<bar>x\<bar> \<le> 2 ^ p * 2 powi k"
    unfolding absx using mr by (intro mult_right_mono) simp_all
  then have ub: "\<bar>x\<bar> \<le> 2 powi (int p + k)"
    by (simp only: pow2_shift)
  have lb: "2 powi L \<le> \<bar>x\<bar>"
    unfolding L_def using x0 by (rule ilog2_bounds)
  from lb ub have "(2::real) powi L \<le> 2 powi (int p + k)" by linarith
  then have Lle: "L \<le> int p + k" by (rule pow2_le_imp_le)
  have "\<exists>j. x = of_int j * 2 powi d"
  proof (cases "L = int p + k")
    case True
    with k p have e: "e = L" by (simp add: e_def)
    with True have d: "d = k + 1" by (simp add: d_def)
    from lb True have "2 ^ p * 2 powi k \<le> of_int \<bar>m\<bar> * (2::real) powi k"
      by (simp only: absx pow2_shift)
    then have "(2::real) ^ p \<le> of_int \<bar>m\<bar>"
      by (simp add: mult_le_cancel_right)
    with mr have "(of_int \<bar>m\<bar> :: real) = 2 ^ p" by linarith
    then have "\<bar>m\<bar> = 2 ^ p" by (rule int_abs_eq_pow2)
    with p have "even m" by (rule even_abs_pow2)
    then obtain j where j: "m = 2 * j" by (auto elim: evenE)
    have "(2::real) powi (k + 1) = 2 * 2 powi k"
      by (simp add: power_int_add)
    then have "x = of_int j * 2 powi (k + 1)"
      by (simp add: x_def j)
    with d show ?thesis by blast
  next
    case False
    with Lle have "L < int p + k" by simp
    with k have dk: "d \<le> k" by (simp add: d_def e_def)
    have "x = of_int m * (of_int (2 ^ nat (k - d)) * 2 powi d)"
      unfolding x_def by (simp only: pow2_split [OF dk, symmetric])
    then have "x = of_int (m * 2 ^ nat (k - d)) * 2 powi d"
      by (simp only: of_int_mult mult.assoc)
    then show ?thesis by blast
  qed
  then obtain j where j: "x = of_int j * 2 powi d" ..
  have "of_int (round_half_even (x / 2 powi d)) * 2 powi d = x"
    by (rule round_exact [OF _ j]) simp
  moreover have "\<not> 2 powi (emax + 1) \<le> \<bar>x\<bar>"
    using nov by (simp add: x_def)
  ultimately have "fl_round p emax x = Fin x"
    using x0 by (simp add: fl_round_def Let_def L_def e_def d_def)
  then show ?thesis by (simp add: x_def)
qed


lemma pow2_quot: "(2::real) powi (e + 1) = 2 ^ p * 2 powi (e - int p + 1)"
  using pow2_shift [of p "e - int p + 1"] by simp

lemma fl_round_Fin_form:
  assumes p: "1 \<le> p" and r: "fl_round p emax x = Fin y"
  shows "\<exists>m k. y = of_int m * 2 powi k \<and> \<bar>m\<bar> \<le> 2 ^ p \<and> 2 - emax - int p \<le> k
           \<and> \<bar>y\<bar> < 2 powi (emax + 1)"
proof (cases "x = 0")
  case True
  with r have "y = 0" by (simp add: fl_round_def)
  then have "y = of_int 0 * 2 powi (2 - emax - int p) \<and> \<bar>0::int\<bar> \<le> 2 ^ p
      \<and> 2 - emax - int p \<le> 2 - emax - int p \<and> \<bar>y\<bar> < 2 powi (emax + 1)"
    by simp
  then show ?thesis by blast
next
  case False
  define L where "L = ilog2 x"
  define e where "e = max (1 - emax) L"
  define d where "d = e - int p + 1"
  define n where "n = round_half_even (x / 2 powi d)"
  from r False have y: "y = of_int n * 2 powi d" and nov: "\<bar>y\<bar> < 2 powi (emax + 1)"
    by (auto simp: fl_round_def Let_def L_def e_def d_def n_def split: if_splits)
  have "\<bar>x\<bar> < 2 powi (L + 1)"
    unfolding L_def using False by (rule ilog2_bounds)
  also have "(2::real) powi (L + 1) \<le> 2 powi (e + 1)"
    by (intro power_int_increasing) (simp_all add: e_def)
  finally have "\<bar>x\<bar> < 2 powi (e + 1)" .
  then have "\<bar>x\<bar> < 2 ^ p * 2 powi d"
    unfolding d_def by (simp only: pow2_quot [symmetric])
  then have "\<bar>x\<bar> / 2 powi d < 2 ^ p"
    by (simp add: pos_divide_less_eq)
  then have q: "\<bar>x / 2 powi d\<bar> < 2 ^ p"
    by simp
  from q have "- (2 ^ p) \<le> x / 2 powi d" and "x / 2 powi d \<le> 2 ^ p"
    by linarith+
  then have lo: "of_int (- (2 ^ p)) \<le> x / 2 powi d" and hi: "x / 2 powi d \<le> of_int (2 ^ p)"
    by simp_all
  have "- (2 ^ p) \<le> n"
    unfolding n_def using lo by (rule round_half_even_ge)
  moreover have "n \<le> 2 ^ p"
    unfolding n_def using hi by (rule round_half_even_le)
  ultimately have "- (2 ^ p) \<le> n" and "n \<le> 2 ^ p" .
  then have "\<bar>n\<bar> \<le> 2 ^ p" by simp
  moreover have "2 - emax - int p \<le> d" by (simp add: d_def e_def)
  ultimately show ?thesis using y nov by blast
qed

lemma fl_round_idem:
  assumes "1 \<le> p" and "fl_round p emax x = Fin y"
  shows "fl_round p emax y = Fin y"
proof -
  from fl_round_Fin_form [OF assms] obtain m k where
    "y = of_int m * 2 powi k" "\<bar>m\<bar> \<le> 2 ^ p" "2 - emax - int p \<le> k"
    "\<bar>y\<bar> < 2 powi (emax + 1)"
    by blast
  then show ?thesis
    using fl_round_representable [OF assms(1), where m = m and k = k and emax = emax]
    by simp
qed

lemma pow2_half: "1 \<le> p \<Longrightarrow> (2::real) powi L = of_int (2 ^ (p - 1)) * 2 powi (L - int p + 1)"
proof -
  assume "1 \<le> p"
  then have "int (p - 1) + (L - int p + 1) = L" by simp
  then show ?thesis
    using pow2_shift [of "p - 1" "L - int p + 1"] by simp
qed

lemma fl_round_overflow:
  assumes p: "1 \<le> p" and emax: "0 \<le> emax" and big: "2 powi (emax + 1) \<le> x"
  shows "fl_round p emax x = PInf"
proof -
  define L where "L = ilog2 x"
  define d where "d = L - int p + 1"
  define n where "n = round_half_even (x / 2 powi d)"
  have "(0::real) < 2 powi (emax + 1)" by simp
  with big have xpos: "0 < x" by linarith
  then have x0: "x \<noteq> 0" by simp
  have "\<bar>x\<bar> < 2 powi (L + 1)"
    unfolding L_def using x0 by (rule ilog2_bounds)
  with big xpos have "(2::real) powi (emax + 1) < 2 powi (L + 1)" by simp
  then have "emax + 1 < L + 1" by (rule pow2_less_imp_less)
  then have L: "emax + 1 \<le> L" by simp
  with emax have e: "max (1 - emax) L = L" by simp
  have "2 powi L \<le> \<bar>x\<bar>"
    unfolding L_def using x0 by (rule ilog2_bounds)
  with xpos have "2 powi L \<le> x" by simp
  then have "of_int (2 ^ (p - 1)) * 2 powi d \<le> x"
    unfolding d_def by (simp only: pow2_half [OF p, symmetric])
  then have "of_int (2 ^ (p - 1)) \<le> x / 2 powi d"
    by (simp add: pos_le_divide_eq)
  then have "2 ^ (p - 1) \<le> n"
    unfolding n_def by (rule round_half_even_ge)
  then have "(of_int (2 ^ (p - 1)) :: real) \<le> of_int n"
    by (simp only: of_int_le_iff)
  then have "(of_int (2 ^ (p - 1)) :: real) * 2 powi d \<le> of_int n * 2 powi d"
    by (intro mult_right_mono) simp_all
  then have "(2::real) powi L \<le> of_int n * 2 powi d"
    unfolding d_def by (simp only: pow2_half [OF p, symmetric])
  moreover have "(2::real) powi (emax + 1) \<le> 2 powi L"
    using L by (intro power_int_increasing) simp_all
  ultimately have "(2::real) powi (emax + 1) \<le> of_int n * 2 powi d"
    by linarith
  then have "(2::real) powi (emax + 1) \<le> \<bar>of_int n * 2 powi d\<bar>"
    by linarith
  then show ?thesis
    using x0 xpos e by (simp add: fl_round_def Let_def L_def d_def n_def)
qed

text \<open>
  The values of a format are fixed points of its rounding: those of the form
  \<open>m * 2 ^ k\<close> with \<open>m\<close> below \<open>2 ^ p\<close> in magnitude and \<open>k\<close> in the range of the format.
\<close>

lemma fl_round_dyadic:
  assumes p: "1 \<le> p" and m: "\<bar>m\<bar> < 2 ^ p" and k: "2 - emax - int p \<le> k"
    and top: "k + int p \<le> emax + 1"
  shows "fl_round p emax (of_int m * 2 powi k) = Fin (of_int m * 2 powi k)"
proof -
  from m have "\<bar>m\<bar> \<le> 2 ^ p" by simp
  note mr = real_abs_le_pow2 [OF this]
  from m have "(of_int \<bar>m\<bar> :: real) < of_int (2 ^ p)"
    by (simp only: of_int_less_iff)
  then have "(of_int \<bar>m\<bar> :: real) < 2 ^ p" by simp
  then have "of_int \<bar>m\<bar> * (2::real) powi k < 2 ^ p * 2 powi k"
    by (intro mult_strict_right_mono) simp_all
  then have "of_int \<bar>m\<bar> * (2::real) powi k < 2 powi (int p + k)"
    by (simp only: pow2_shift)
  moreover have "(2::real) powi (int p + k) \<le> 2 powi (emax + 1)"
    using top by (intro power_int_increasing) simp_all
  moreover have "\<bar>of_int m * (2::real) powi k\<bar> = of_int \<bar>m\<bar> * 2 powi k"
    by (simp add: abs_mult)
  ultimately have "\<bar>of_int m * (2::real) powi k\<bar> < 2 powi (emax + 1)"
    by linarith
  with p \<open>\<bar>m\<bar> \<le> 2 ^ p\<close> k show ?thesis
    by (rule fl_round_representable)
qed

lemma f32_round_int: "\<bar>m\<bar> < 2 ^ 24 \<Longrightarrow> f32_round (of_int m) = Fin (of_int m)"
  using fl_round_dyadic [of 24 m 127 0] by (simp add: f32_round_def)



lemma f32_round_idem: "f32_round x = Fin y \<Longrightarrow> f32_round y = Fin y"
  unfolding f32_round_def by (rule fl_round_idem) simp

lemma f32_round_0: "f32_round 0 = Fin 0"
  by (simp add: f32_round_def fl_round_def)


section \<open>Properties of the swath grid\<close>























section \<open>Properties of the empty swath\<close>

text \<open>
  Claim C5, as the code has it. When no pixel of a swath is finite in the measurement
  and in both geolocation arrays, \<^verbatim>\<open>create_geotiff_from_swath\<close> prints its message and
  returns: it raises no exception, builds no grid and writes no raster, whatever the
  resampler and the cell size. The loop of \<^verbatim>\<open>main\<close> then goes on with the next product.
\<close>

theorem empty_swath_returns_without_raster:
  assumes "map length tsm = map length lat" and "map length lat = map length lon"
    and "mask_sum (valid_mask tsm lat lon) = 0"
  shows "create_geotiff_from_swath resample out tsm lat lon res_deg
           = Inr ([NoValidPixels], None)
       \<and> create_geotiffs resample res_deg
           (\<lparr>sen3_name = n, tsm_nn = Some tsm, geo_coordinates = Some (lat, lon)\<rparr> # ps)
           = (case create_geotiffs resample res_deg ps of
                (printed, written, raised) \<Rightarrow> (NoValidPixels # printed, written, raised))"
proof -
  have one: "create_geotiff_from_swath resample nm tsm lat lon res_deg
      = Inr ([NoValidPixels], None)" for nm
    using assms by (simp add: create_geotiff_from_swath_def)
  then show ?thesis
    by (simp split: prod.splits)
qed

theorem empty_swath_returns_without_raster_witness:
  "create_geotiffs (\<lambda>lons lats ad radius data. Inr data) (27 / 10000)
     [\<lparr>sen3_name = ''A.SEN3'', tsm_nn = Some [[NaN, Fin 3]],
       geo_coordinates = Some ([[Fin 1, NaN]], [[Fin 2, Fin 4]])\<rparr>]
     = ([NoValidPixels], [], None)"
  using empty_swath_returns_without_raster
    [of "[[NaN, Fin 3]]" "[[Fin 1, NaN]]" "[[Fin 2, Fin 4]]"
        "\<lambda>lons lats ad radius data. Inr data" "''TSM_A.SEN3.tif''" "27 / 10000"
        "''A.SEN3''" "[]"]
  by (simp add: mask_sum_def valid_mask_def)

text \<open>
  Claim C5 as stated fails: on a swath without a valid pixel the function does not
  fail, it returns normally.
\<close>

theorem empty_swath_raises_nothing:
  "create_geotiff_from_swath (\<lambda>lons lats ad radius data. Inr data) ''TSM_A.SEN3.tif''
     [[NaN]] [[Fin 0]] [[Fin 0]] (27 / 10000) = Inr ([NoValidPixels], None)
   \<and> \<not> isl (create_geotiff_from_swath (\<lambda>lons lats ad radius data. Inr data)
       ''TSM_A.SEN3.tif'' [[NaN]] [[Fin 0]] [[Fin 0]] (27 / 10000))"
  by (simp add: create_geotiff_from_swath_def mask_sum_def valid_mask_def)

section \<open>Properties of the compositor\<close>



lemma reproject_each_same:
  assumes "\<forall>s \<in> set srcs.
     reproject (band1 s) shp (transform (meta s)) (crs (meta s)) dst_t (crs (meta s))
       = Inr (band1 s)"
  shows "reproject_each reproject shp dst_t srcs = Inr (map band1 srcs)"
  using assms by (induction srcs) simp_all

lemma has_shape_lengths: "has_shape a h w \<Longrightarrow> map length a = replicate h w"
  by (auto simp: has_shape_def list_all_iff list_eq_iff_nth_eq)

lemma np_stack_same_shape:
  assumes "arrays \<noteq> []" and "\<forall>a \<in> set arrays. has_shape a h w"
  shows "np_stack arrays = Inr arrays"
proof (cases arrays)
  case Nil
  with assms show ?thesis by simp
next
  case (Cons a as)
  with assms have "\<forall>b \<in> set (a # as). map length b = replicate h w"
    by (auto dest: has_shape_lengths)
  with Cons show ?thesis
    by (simp add: np_stack_def list_all_iff)
qed

lemma f32_value_fadd: "f32_value (fadd_r f32_round a b)"
proof (cases a; cases b)
  fix x y
  assume "a = Fin x" and "b = Fin y"
  then show ?thesis
    by (cases "f32_round (x + y)") (simp_all add: f32_value_def f32_round_idem)
qed (simp_all add: f32_value_def)

lemma fadd_f32_zero_right: "f32_value a \<Longrightarrow> fadd_r f32_round a (Fin 0) = a"
  by (cases a) (simp_all add: f32_value_def)

lemma foldl_fadd_f32_replace_nan:
  assumes "f32_value acc"
  shows "foldl (fadd_r f32_round) acc (map (\<lambda>v. if isnan v then Fin 0 else v) vs)
     = foldl (fadd_r f32_round) acc (filter (\<lambda>v. \<not> isnan v) vs)"
  using assms
proof (induction vs arbitrary: acc)
  case Nil
  then show ?case by simp
next
  case (Cons v vs)
  show ?case
  proof (cases "isnan v")
    case True
    with Cons show ?thesis by (simp add: fadd_f32_zero_right)
  next
    case False
    with Cons.IH [OF f32_value_fadd] show ?thesis by simp
  qed
qed

lemma nanmean1_f32_spec: "nanmean1_f32 vs = spec_mean_valid_f32 vs"
proof -
  have zero: "f32_value (Fin 0)"
    by (simp add: f32_value_def f32_round_0)
  have "fsum_f32 (map (\<lambda>v. if isnan v then Fin 0 else v) vs)
      = fsum_f32 (filter (\<lambda>v. \<not> isnan v) vs)"
    unfolding fsum_f32_def using zero by (rule foldl_fadd_f32_replace_nan)
  then show ?thesis
    by (simp add: nanmean1_f32_def spec_mean_valid_f32_def Let_def fsum_f32_def)
qed

lemma spec_mean_valid_f32_all_nan:
  assumes "list_all isnan vals"
  shows "spec_mean_valid_f32 vals = NaN"
proof -
  from assms have "filter (\<lambda>v. \<not> isnan v) vals = []"
    by (simp add: filter_empty_conv list_all_iff)
  then show ?thesis by (simp add: spec_mean_valid_f32_def)
qed

lemma nanmean_axis0_f32_nth:
  assumes "i < length a" and "j < length (a ! i)"
  shows "nanmean_axis0_f32 (a # as) ! i ! j = nanmean1_f32 (map (\<lambda>b. b ! i ! j) (a # as))"
  using assms by (simp add: nanmean_axis0_f32_def)

lemma has_shape_nanmean_axis0_f32:
  assumes "has_shape a h w"
  shows "has_shape (nanmean_axis0_f32 (a # as)) h w"
  using assms by (simp add: has_shape_def nanmean_axis0_f32_def list_all_length)

text \<open>
  For one float32 value the float32 mean is the value itself, as in the arithmetic
  without rounding.
\<close>

lemma nanmean1_f32_single: "f32_value v \<Longrightarrow> nanmean1_f32 [v] = v"
  by (cases v) (simp_all add: nanmean1_f32_def fsum_f32_def f32_value_def f32_round_0)

text \<open>
  Claim C1, as the code has it. The rasters of a group share a grid: each array has
  \<open>h\<close> rows of \<open>w\<close> pixels and the transform \<open>t\<close>, merging them gives that grid, and
  reprojecting a raster onto the grid it is on returns its array; the arrays have
  more than one pixel, or the group has fewer than 8 rasters. Then
  \<^verbatim>\<open>merge_and_average\<close> returns a composite on the same grid whose pixel \<open>(i, j)\<close> is the
  float32 mean of the member values at \<open>(i, j)\<close> that are not NaN: these values are
  added in the order of the members, each sum rounded to float32 (an infinity beyond
  the float32 range), and the total is divided by their number and rounded to
  float32. The pixel is NaN when all members are NaN there.
\<close>

theorem composite_is_mean_of_valid:
  assumes ne: "srcs \<noteq> []"
    and grid: "\<forall>s \<in> set srcs. has_shape (band1 s) h w \<and> transform (meta s) = t"
    and mrg: "merge srcs = Inr (m0, t)" and m0: "shape2 m0 = (h, w)"
    and rep: "\<forall>s \<in> set srcs.
        reproject (band1 s) (h, w) t (crs (meta s)) t (crs (meta s)) = Inr (band1 s)"
    and i: "i < h" and j: "j < w"
    and order: "length srcs < 8 \<or> 1 < h * w"
  shows "\<exists>out. merge_and_average_f32 merge reproject srcs = Inr (out, t, meta (hd srcs))
      \<and> has_shape out h w
      \<and> out ! i ! j = spec_mean_valid_f32 (map (\<lambda>s. band1 s ! i ! j) srcs)
      \<and> (list_all (\<lambda>s. isnan (band1 s ! i ! j)) srcs \<longrightarrow> out ! i ! j = NaN)"
proof -
  from ne obtain s0 rest where srcs: "srcs = s0 # rest"
    by (cases srcs) auto
  let ?stack = "map band1 srcs"
  let ?out = "nanmean_axis0_f32 ?stack"
  let ?vals = "map (\<lambda>s. band1 s ! i ! j) srcs"
  from grid rep have "\<forall>s \<in> set srcs.
      reproject (band1 s) (h, w) (transform (meta s)) (crs (meta s)) t (crs (meta s))
        = Inr (band1 s)"
    by simp
  then have each: "reproject_each reproject (h, w) t srcs = Inr ?stack"
    by (rule reproject_each_same)
  from grid have shapes: "\<forall>a \<in> set ?stack. has_shape a h w"
    by simp
  from ne have "?stack \<noteq> []" by simp
  then have stk: "np_stack ?stack = Inr ?stack"
    using shapes by (rule np_stack_same_shape)
  have res: "merge_and_average_f32 merge reproject srcs = Inr (?out, t, meta (hd srcs))"
  proof -
    have "merge_and_average_f32 merge reproject srcs =
        (case srcs of [] \<Rightarrow> Inl IndexError | s0 # _ \<Rightarrow> Inr (?out, t, meta s0))"
      using mrg m0 each stk by (simp add: merge_and_average_f32_def)
    then show ?thesis by (simp add: srcs)
  qed
  from grid srcs have s0: "has_shape (band1 s0) h w" by simp
  then have shp: "has_shape ?out h w"
    using srcs by (simp add: has_shape_nanmean_axis0_f32)
  from s0 i j have "i < length (band1 s0)" "j < length (band1 s0 ! i)"
    by (simp_all add: has_shape_def list_all_length)
  then have "nanmean_axis0_f32 (band1 s0 # map band1 rest) ! i ! j
      = nanmean1_f32 (map (\<lambda>b. b ! i ! j) (band1 s0 # map band1 rest))"
    by (rule nanmean_axis0_f32_nth)
  then have px: "?out ! i ! j = spec_mean_valid_f32 ?vals"
    using srcs by (simp add: nanmean1_f32_spec o_def)
  have allnan: "?out ! i ! j = NaN" if "list_all (\<lambda>s. isnan (band1 s ! i ! j)) srcs"
  proof -
    from that have "list_all isnan ?vals" by (simp add: list_all_iff)
    then show ?thesis using px by (simp add: spec_mean_valid_f32_all_nan)
  qed
  from res shp px allnan show ?thesis by blast
qed

text \<open>
  The scenario of the specification: the rasters \<open>[10, NaN]\<close> and \<open>[NaN, 20]\<close> of one
  day give the composite \<open>[10, 20]\<close>.
\<close>

theorem composite_is_mean_of_valid_witness:
  "\<exists>out. merge_and_average_f32 merge_first reproject_same
      [\<lparr>meta = float32_profile 2 1, band1 = [[Fin 10, NaN]]\<rparr>,
       \<lparr>meta = float32_profile 2 1, band1 = [[NaN, Fin 20]]\<rparr>]
     = Inr (out, transform (float32_profile 2 1), float32_profile 2 1)
   \<and> out ! 0 ! 1 = Fin 20"
proof -
  have "f32_round 20 = Fin 20"
    using f32_round_int [of 20] by simp
  then have "spec_mean_valid_f32 [NaN, Fin 20] = Fin 20"
    by (simp add: spec_mean_valid_f32_def fsum_f32_def)
  then show ?thesis
    using composite_is_mean_of_valid
      [of "[\<lparr>meta = float32_profile 2 1, band1 = [[Fin 10, NaN]]\<rparr>,
            \<lparr>meta = float32_profile 2 1, band1 = [[NaN, Fin 20]]\<rparr>]"
          1 2 "transform (float32_profile 2 1)" merge_first "[[Fin 10, NaN]]"
          reproject_same 0 1]
    by (auto simp: has_shape_def merge_first_def reproject_same_def shape2_def)
qed

text \<open>
  Claim C1 as stated fails: the composite is not always the arithmetic mean of the
  values. Two rasters of one pixel holding \<open>2 ^ 127\<close>, a float32 value, have the mean
  \<open>2 ^ 127\<close>, and their composite is plus infinity, the float32 sum being out of
  range. Three rasters of one pixel holding 1, 2 and 2 have the mean \<open>5 / 3\<close>, and
  their composite is the float32 value \<open>13981013 / 8388608\<close> next to it.
\<close>

lemma f32_round_five_thirds: "f32_round (5 / 3) = Fin (13981013 / 8388608)"
proof -
  have "ilog2 (5 / 3) = 0"
    by (rule ilog2_unique) simp_all
  then show ?thesis
    by (simp add: f32_round_def fl_round_def round_half_even_def Let_def)
qed

lemma f32_round_pow127: "f32_round (2 ^ 127) = Fin (2 ^ 127)"
  using fl_round_dyadic [of 24 "2 ^ 23" 127 104] by (simp add: f32_round_def)

lemma f32_round_pow128: "f32_round (2 ^ 127 + 2 ^ 127) = PInf"
  unfolding f32_round_def by (rule fl_round_overflow) simp_all

theorem composite_not_exact_mean:
  "f32_value (Fin (2 ^ 127))
   \<and> merge_and_average_f32 merge_first reproject_same
       [\<lparr>meta = float32_profile 1 1, band1 = [[Fin (2 ^ 127)]]\<rparr>,
        \<lparr>meta = float32_profile 1 1, band1 = [[Fin (2 ^ 127)]]\<rparr>]
     = Inr ([[PInf]], transform (float32_profile 1 1), float32_profile 1 1)
   \<and> spec_exact_mean [2 ^ 127, 2 ^ 127] = 2 ^ 127
   \<and> merge_and_average_f32 merge_first reproject_same
       [\<lparr>meta = float32_profile 1 1, band1 = [[Fin 1]]\<rparr>,
        \<lparr>meta = float32_profile 1 1, band1 = [[Fin 2]]\<rparr>,
        \<lparr>meta = float32_profile 1 1, band1 = [[Fin 2]]\<rparr>]
     = Inr ([[Fin (13981013 / 8388608)]], transform (float32_profile 1 1),
            float32_profile 1 1)
   \<and> spec_exact_mean [1, 2, 2] = 5 / 3
   \<and> (13981013 / 8388608 :: real) \<noteq> 5 / 3"
proof -
  have ints: "f32_round 1 = Fin 1" "f32_round 3 = Fin 3" "f32_round 5 = Fin 5"
    using f32_round_int [of 1] f32_round_int [of 3] f32_round_int [of 5] by simp_all
  have big: "merge_and_average_f32 merge_first reproject_same
       [\<lparr>meta = float32_profile 1 1, band1 = [[Fin (2 ^ 127)]]\<rparr>,
        \<lparr>meta = float32_profile 1 1, band1 = [[Fin (2 ^ 127)]]\<rparr>]
     = Inr ([[PInf]], transform (float32_profile 1 1), float32_profile 1 1)"
    using f32_round_pow127 f32_round_pow128
    by (simp add: merge_and_average_f32_def merge_first_def reproject_same_def shape2_def
        np_stack_def nanmean_axis0_f32_def nanmean1_f32_def fsum_f32_def)
  have small: "merge_and_average_f32 merge_first reproject_same
       [\<lparr>meta = float32_profile 1 1, band1 = [[Fin 1]]\<rparr>,
        \<lparr>meta = float32_profile 1 1, band1 = [[Fin 2]]\<rparr>,
        \<lparr>meta = float32_profile 1 1, band1 = [[Fin 2]]\<rparr>]
     = Inr ([[Fin (13981013 / 8388608)]], transform (float32_profile 1 1),
            float32_profile 1 1)"
    using ints f32_round_five_thirds
    by (simp add: merge_and_average_f32_def merge_first_def reproject_same_def shape2_def
        np_stack_def nanmean_axis0_f32_def nanmean1_f32_def fsum_f32_def)
  have val: "f32_value (Fin (2 ^ 127))"
    using f32_round_pow127 by (simp add: f32_value_def)
  have means: "spec_exact_mean [2 ^ 127, 2 ^ 127] = 2 ^ 127" "spec_exact_mean [1, 2, 2] = 5 / 3"
    by (simp_all add: spec_exact_mean_def)
  have ne: "(13981013 / 8388608 :: real) \<noteq> 5 / 3" by simp
  from val big means small ne show ?thesis by (intro conjI)
qed




text \<open>
  The same holds in float32 arithmetic for a raster of float32 values: the float32
  mean of a stack of one array is the array.
\<close>

lemma nanmean_axis0_f32_single:
  assumes "list_all (list_all f32_value) a"
  shows "nanmean_axis0_f32 [a] = a"
proof -
  have row: "map (\<lambda>j. nanmean1_f32 [a ! i ! j]) [0..<length (a ! i)] = a ! i"
    if "i < length a" for i
  proof (rule nth_equalityI)
    show "length (map (\<lambda>j. nanmean1_f32 [a ! i ! j]) [0..<length (a ! i)]) = length (a ! i)"
      by simp
  next
    fix j
    assume "j < length (map (\<lambda>j. nanmean1_f32 [a ! i ! j]) [0..<length (a ! i)])"
    then have j: "j < length (a ! i)" by simp
    with assms that have "f32_value (a ! i ! j)"
      by (simp add: list_all_length)
    with j show "map (\<lambda>j. nanmean1_f32 [a ! i ! j]) [0..<length (a ! i)] ! j = a ! i ! j"
      by (simp add: nanmean1_f32_single)
  qed
  have "nanmean_axis0_f32 [a] = map (\<lambda>i. a ! i) [0..<length a]"
    by (simp add: nanmean_axis0_f32_def row cong: map_cong)
  then show ?thesis by (simp add: map_nth)
qed

lemma single_member_group_unchanged_f32:
  assumes "merge [s] = Inr (m0, transform (meta s))"
    and "shape2 m0 = shape2 (band1 s)"
    and "reproject (band1 s) (shape2 (band1 s)) (transform (meta s)) (crs (meta s))
               (transform (meta s)) (crs (meta s)) = Inr (band1 s)"
    and "list_all (list_all f32_value) (band1 s)"
  shows "merge_and_average_f32 merge reproject [s]
           = Inr (band1 s, transform (meta s), meta s)"
  using assms
  by (simp add: merge_and_average_f32_def np_stack_def nanmean_axis0_f32_single)

section \<open>Properties of the clipping loop\<close>





section \<open>Properties of the grouping by date\<close>

lemma group_by_date_prints_nothing: "fst (group_by_date files) = []"
proof -
  have "fst (foldl (\<lambda>(printed, grouped) f.
              case search_d8 (basename f) of
                Some date \<Rightarrow> (printed, setdefault_append date f grouped)
              | None \<Rightarrow> (printed, grouped)) (p, g) files) = p"
    for p :: "event list" and g
    by (induction files arbitrary: g) (simp_all split: option.splits)
  then show ?thesis by (simp add: group_by_date_def)
qed

text \<open>
  Claim C6 at a file name without a run of eight digits, in the grouping loop of
  \<^verbatim>\<open>s3_process_to_geotiff.py\<close>: the file is left out of every group, and nothing is
  printed about it.
\<close>

theorem undated_file_dropped_silently:
  "group_by_date [''clip/TSM_mosaic.tif'', ''clip/TSM_S3A_20180105T093000.tif'']
     = ([], [(''20180105'', [''clip/TSM_S3A_20180105T093000.tif''])])"
  by (simp add: group_by_date_def basename_def is_digit_def)

text \<open>
  The other script does report: a file from which \<^verbatim>\<open>extract_datetime_from_filename\<close>
  gets no timestamp is named in a message, and step 4D leaves it out of the stack.
\<close>

lemma extract_none_is_reported:
  assumes "snd (extract_datetime_from_filename f) = None"
  shows "extract_datetime_from_filename f = ([CouldNotExtract (basename f)], None)"
  using assms by (simp add: extract_datetime_from_filename_def Let_def split: option.splits)

lemma load_dataarrays_reports_undated:
  assumes "snd (extract_datetime_from_filename f) = None"
  shows "load_dataarrays ((f, opened) # files) =
     (case load_dataarrays files of (printed, dataarrays) \<Rightarrow>
        (Processing (basename f) # CouldNotExtract (basename f) # printed, dataarrays))"
  using extract_none_is_reported [OF assms] by (simp split: prod.splits)

lemma undated_file_reported_example:
  "extract_datetime_from_filename ''geotiff/TSM_mosaic.tif''
     = ([CouldNotExtract ''TSM_mosaic.tif''], None)"
  by (simp add: extract_datetime_from_filename_def path_stem_def basename_def)


section \<open>Properties of the reclassifier\<close>

lemma reclass_px_cases:
  "reclass_px v =
     (case v of NaN \<Rightarrow> NaN | NInf \<Rightarrow> Fin 0
      | Fin x \<Rightarrow> (if x < 0 then Fin 0 else Fin x) | PInf \<Rightarrow> PInf)"
  by (cases v) (simp_all add: reclass_px_def)

lemma reclass_px_idem: "reclass_px (reclass_px v) = reclass_px v"
  by (cases v) (simp_all add: reclass_px_def)

lemma isnan_reclass_px: "isnan (reclass_px v) = isnan v"
  by (cases v) (simp_all add: reclass_px_def)

lemma band1_reclassify:
  "band1 (reclassify_negative_to_zero r) = map (map reclass_px) (band1 r)"
  by (simp add: reclassify_negative_to_zero_def)

lemma meta_reclassify: "meta (reclassify_negative_to_zero r) = meta r"
  by (simp add: reclassify_negative_to_zero_def)

text \<open>
  Claim C2, as the code has it. The output array has the shape of the input array, and
  at every pixel: NaN stays NaN, every value below zero becomes 0 (minus infinity
  included, since \<^verbatim>\<open>-inf < 0\<close> holds and the only guard is \<^verbatim>\<open>~np.isnan\<close>), plus infinity
  and every value \<open>v \<ge> 0\<close> are unchanged. On raster values the function is total.
\<close>

theorem reclassify_pixelwise:
  assumes "i < length (band1 r)" and "j < length (band1 r ! i)"
  shows "length (band1 (reclassify_negative_to_zero r)) = length (band1 r)
       \<and> length (band1 (reclassify_negative_to_zero r) ! i) = length (band1 r ! i)
       \<and> band1 (reclassify_negative_to_zero r) ! i ! j =
           (case band1 r ! i ! j of
              NaN \<Rightarrow> NaN
            | NInf \<Rightarrow> Fin 0
            | Fin x \<Rightarrow> (if x < 0 then Fin 0 else Fin x)
            | PInf \<Rightarrow> PInf)"
  using assms by (simp add: band1_reclassify reclass_px_cases)

text \<open>The scenario of the specification: \<open>[[5, -2, NaN]]\<close> reclassifies to \<open>[[5, 0, NaN]]\<close>.\<close>

theorem reclassify_pixelwise_witness:
  "band1 (reclassify_negative_to_zero
      \<lparr>meta = float32_profile 3 1, band1 = [[Fin 5, Fin (- 2), NaN]]\<rparr>) ! 0 ! 1 = Fin 0"
  using reclassify_pixelwise
    [of 0 "\<lparr>meta = float32_profile 3 1, band1 = [[Fin 5, Fin (- 2), NaN]]\<rparr>" 1]
  by simp

text \<open>
  Claim C2 as stated fails: a pixel holding minus infinity is not finite, and it is
  not left unchanged but set to 0.
\<close>

theorem reclassify_changes_minus_infinity:
  "\<not> isfinite NInf \<and>
   band1 (reclassify_negative_to_zero
      \<lparr>meta = float32_profile 1 1, band1 = [[NInf]]\<rparr>) = [[Fin 0]] \<and>
   Fin 0 \<noteq> NInf"
  by (simp add: reclassify_negative_to_zero_def reclass_px_def)

text \<open>
  Claim C8. Reclassifying twice is reclassifying once, and reclassifying moves no
  no-data pixel: the mask of NaN pixels, hence their number, is that of the input.
\<close>

theorem reclassify_idempotent:
  "reclassify_negative_to_zero (reclassify_negative_to_zero r) = reclassify_negative_to_zero r
   \<and> nodata_mask (band1 (reclassify_negative_to_zero r)) = nodata_mask (band1 r)
   \<and> nodata_count (band1 (reclassify_negative_to_zero r)) = nodata_count (band1 r)"
proof -
  have idem: "reclassify_negative_to_zero (reclassify_negative_to_zero r)
      = reclassify_negative_to_zero r"
    by (simp add: reclassify_negative_to_zero_def reclass_px_idem)
  have mask: "nodata_mask (band1 (reclassify_negative_to_zero r)) = nodata_mask (band1 r)"
    by (simp add: nodata_mask_def band1_reclassify isnan_reclass_px)
  have "filter isnan (map reclass_px xs) = map reclass_px (filter isnan xs)" for xs
    by (induction xs) (simp_all add: isnan_reclass_px)
  then have cnt: "nodata_count (band1 (reclassify_negative_to_zero r)) = nodata_count (band1 r)"
    by (simp add: nodata_count_def band1_reclassify map_concat [symmetric])
  from idem mask cnt show ?thesis by simp
qed

theorem reclassify_idempotent_witness:
  "reclassify_negative_to_zero (reclassify_negative_to_zero
      \<lparr>meta = float32_profile 3 1, band1 = [[Fin 5, Fin (- 2), NaN]]\<rparr>)
     = \<lparr>meta = float32_profile 3 1, band1 = [[Fin 5, Fin 0, NaN]]\<rparr>
   \<and> nodata_count (band1 (reclassify_negative_to_zero
      \<lparr>meta = float32_profile 3 1, band1 = [[Fin 5, Fin (- 2), NaN]]\<rparr>)) = 1"
  using reclassify_idempotent
    [of "\<lparr>meta = float32_profile 3 1, band1 = [[Fin 5, Fin (- 2), NaN]]\<rparr>"]
  by (simp add: reclassify_negative_to_zero_def reclass_px_def nodata_count_def)

text \<open>
  Claim C10. Reclassification writes the metadata it read: width, height, dtype, CRS,
  geotransform and no-data sentinel of the output are those of the input, and the
  band keeps its shape.
\<close>

theorem reclassify_keeps_metadata:
  "meta (reclassify_negative_to_zero r) = meta r
   \<and> width (meta (reclassify_negative_to_zero r)) = width (meta r)
   \<and> height (meta (reclassify_negative_to_zero r)) = height (meta r)
   \<and> dtype (meta (reclassify_negative_to_zero r)) = dtype (meta r)
   \<and> crs (meta (reclassify_negative_to_zero r)) = crs (meta r)
   \<and> transform (meta (reclassify_negative_to_zero r)) = transform (meta r)
   \<and> nodata (meta (reclassify_negative_to_zero r)) = nodata (meta r)
   \<and> map length (band1 (reclassify_negative_to_zero r)) = map length (band1 r)"
  by (simp add: meta_reclassify band1_reclassify)

theorem reclassify_keeps_metadata_witness:
  "meta (reclassify_negative_to_zero
      \<lparr>meta = float32_profile 3 1, band1 = [[Fin 5, Fin (- 2), NaN]]\<rparr>) = float32_profile 3 1"
  using reclassify_keeps_metadata
    [of "\<lparr>meta = float32_profile 3 1, band1 = [[Fin 5, Fin (- 2), NaN]]\<rparr>"]
  by simp

end
